theory Spec2Isabelle
  imports Main
begin

section \<open>The capability manifest \<^verbatim>\<open>include/wlr/config.h\<close>\<close>

text \<open>
  The only source file is a C header made of preprocessor directives: an include guard
  around ten object-like macros, each with the replacement list \<^verbatim>\<open>1\<close>. What the header
  means is what the C preprocessor makes of it, so the embedding has two parts: the
  directives of the file, transcribed in file order, and the fragment of the preprocessor
  that these directives use (\<^verbatim>\<open>#ifndef\<close>, \<^verbatim>\<open>#define\<close>, \<^verbatim>\<open>#endif\<close>, and the value
  of a macro name in \<^verbatim>\<open>#if\<close>).
\<close>

subsection \<open>Directives and the header\<close>

text \<open>
  A replacement list is empty (\<open>None\<close>, as for the guard macro) or one integer literal
  (\<open>Some n\<close>); the header uses no other form.
\<close>

type_synonym replacement = "int option"

datatype directive =
    Ifndef string
  | Define string replacement
  | Endif

type_synonym macro_env = "(string \<times> replacement) list"

text \<open>The header, line by line (comments carry no directive).\<close>

definition config_h :: "directive list" where
  "config_h =
    [Ifndef ''WLR_CONFIG_H'',
     Define ''WLR_CONFIG_H'' None,
     Define ''WLR_HAS_DRM_BACKEND'' (Some 1),
     Define ''WLR_HAS_LIBINPUT_BACKEND'' (Some 1),
     Define ''WLR_HAS_X11_BACKEND'' (Some 1),
     Define ''WLR_HAS_GLES2_RENDERER'' (Some 1),
     Define ''WLR_HAS_VULKAN_RENDERER'' (Some 1),
     Define ''WLR_HAS_GBM_ALLOCATOR'' (Some 1),
     Define ''WLR_HAS_UDMABUF_ALLOCATOR'' (Some 1),
     Define ''WLR_HAS_XWAYLAND'' (Some 1),
     Define ''WLR_HAS_SESSION'' (Some 1),
     Define ''WLR_HAS_COLOR_MANAGEMENT'' (Some 1),
     Endif]"

subsection \<open>The preprocessor fragment\<close>

datatype cpp_error =
    EndifWithoutIf
  | UnterminatedConditional
  | IfWithNoExpression string

text \<open>
  The state while a file is read: the macros defined so far in definition order, the
  nesting depth inside a conditional group that is being skipped (\<open>0\<close> when text is
  processed), and the number of open groups that are being processed.
\<close>

record cpp_state =
  macros :: macro_env
  skipping :: nat
  open_groups :: nat

text \<open>A macro that is defined takes a new replacement list, at its place in the table.\<close>

definition redefine :: "string \<Rightarrow> replacement \<Rightarrow> macro_env \<Rightarrow> macro_env" where
  "redefine n b env = map (\<lambda>(m, c). if m = n then (m, b) else (m, c)) env"

text \<open>
  One directive. Inside a skipped group only the nesting is tracked. \<^verbatim>\<open>#ifndef\<close> of a
  defined name starts skipping. \<^verbatim>\<open>#define\<close> of a name that is already defined
  replaces its replacement list: for a different list C11 6.10.3p2 asks for a diagnostic,
  which gcc and clang give as a warning before they go on with the new definition. The
  warning is not part of the state.
\<close>

fun cpp_directive :: "directive \<Rightarrow> cpp_state \<Rightarrow> cpp_error + cpp_state" where
  "cpp_directive (Ifndef n) st =
     (if 0 < skipping st then Inr (st\<lparr>skipping := skipping st + 1\<rparr>)
      else if map_of (macros st) n \<noteq> None then Inr (st\<lparr>skipping := 1\<rparr>)
      else Inr (st\<lparr>open_groups := open_groups st + 1\<rparr>))"
| "cpp_directive (Define n b) st =
     (if 0 < skipping st then Inr st
      else case map_of (macros st) n of
             None \<Rightarrow> Inr (st\<lparr>macros := macros st @ [(n, b)]\<rparr>)
           | Some b' \<Rightarrow> Inr (st\<lparr>macros := redefine n b (macros st)\<rparr>))"
| "cpp_directive Endif st =
     (if 0 < skipping st then Inr (st\<lparr>skipping := skipping st - 1\<rparr>)
      else if open_groups st = 0 then Inl EndifWithoutIf
      else Inr (st\<lparr>open_groups := open_groups st - 1\<rparr>))"

fun cpp :: "directive list \<Rightarrow> cpp_state \<Rightarrow> cpp_error + cpp_state" where
  "cpp [] st = Inr st"
| "cpp (d # ds) st =
     (case cpp_directive d st of Inl e \<Rightarrow> Inl e | Inr st' \<Rightarrow> cpp ds st')"

text \<open>
  \<^verbatim>\<open>#include\<close> of a file at a point where the macros \<open>env\<close> are defined: the file is
  read with no group open, and every group it opens must be closed at its end.
\<close>

definition include_file :: "directive list \<Rightarrow> macro_env \<Rightarrow> cpp_error + macro_env" where
  "include_file file env =
     (case cpp file \<lparr>macros = env, skipping = 0, open_groups = 0\<rparr> of
        Inl e \<Rightarrow> Inl e
      | Inr st \<Rightarrow>
          if 0 < skipping st \<or> 0 < open_groups st then Inl UnterminatedConditional
          else Inr (macros st))"

text \<open>
  The value of a macro name as the controlling expression of \<^verbatim>\<open>#if\<close>: an identifier
  that is not a macro is \<open>0\<close> (C11 6.10.1p4), a macro expands to its literal, and a macro
  with an empty replacement list leaves no expression.
\<close>

definition if_value :: "macro_env \<Rightarrow> string \<Rightarrow> cpp_error + int" where
  "if_value env n =
     (case map_of env n of
        None \<Rightarrow> Inr 0
      | Some None \<Rightarrow> Inl (IfWithNoExpression n)
      | Some (Some v) \<Rightarrow> Inr v)"

text \<open>The macros a translation unit sees after it includes the header first.\<close>

definition wlr_config :: macro_env where
  "wlr_config = (case include_file config_h [] of Inl e \<Rightarrow> [] | Inr env \<Rightarrow> env)"

text \<open>The capability macros are the ones named \<^verbatim>\<open>WLR_HAS_*\<close>.\<close>

definition is_capability_macro :: "string \<Rightarrow> bool" where
  "is_capability_macro n = (take 8 n = ''WLR_HAS_'')"

definition capability_macros :: "macro_env \<Rightarrow> macro_env" where
  "capability_macros env = filter (\<lambda>(n, b). is_capability_macro n) env"

subsection \<open>Capability flags\<close>

text \<open>
  The flags of the capability surface as the specification's data model enumerates them
  (an enumerated tag), each with the name the specification writes for it.
\<close>

datatype CapabilityFlag =
    DrmBackend
  | LibinputBackend
  | X11Backend
  | Gles2Renderer
  | VulkanRenderer
  | GbmAllocator
  | UdmabufAllocator
  | Xwayland
  | Session
  | ColorManagement

fun flag_name :: "CapabilityFlag \<Rightarrow> string" where
  "flag_name DrmBackend = ''drm-backend''"
| "flag_name LibinputBackend = ''libinput-backend''"
| "flag_name X11Backend = ''x11-backend''"
| "flag_name Gles2Renderer = ''gles2-renderer''"
| "flag_name VulkanRenderer = ''vulkan-renderer''"
| "flag_name GbmAllocator = ''gbm-allocator''"
| "flag_name UdmabufAllocator = ''udmabuf-allocator''"
| "flag_name Xwayland = ''xwayland''"
| "flag_name Session = ''session''"
| "flag_name ColorManagement = ''color-management''"

definition all_flags :: "CapabilityFlag list" where
  "all_flags =
    [DrmBackend, LibinputBackend, X11Backend, Gles2Renderer, VulkanRenderer,
     GbmAllocator, UdmabufAllocator, Xwayland, Session, ColorManagement]"

text \<open>The macro of the header that carries each flag.\<close>

fun macro_of :: "CapabilityFlag \<Rightarrow> string" where
  "macro_of DrmBackend = ''WLR_HAS_DRM_BACKEND''"
| "macro_of LibinputBackend = ''WLR_HAS_LIBINPUT_BACKEND''"
| "macro_of X11Backend = ''WLR_HAS_X11_BACKEND''"
| "macro_of Gles2Renderer = ''WLR_HAS_GLES2_RENDERER''"
| "macro_of VulkanRenderer = ''WLR_HAS_VULKAN_RENDERER''"
| "macro_of GbmAllocator = ''WLR_HAS_GBM_ALLOCATOR''"
| "macro_of UdmabufAllocator = ''WLR_HAS_UDMABUF_ALLOCATOR''"
| "macro_of Xwayland = ''WLR_HAS_XWAYLAND''"
| "macro_of Session = ''WLR_HAS_SESSION''"
| "macro_of ColorManagement = ''WLR_HAS_COLOR_MANAGEMENT''"

text \<open>
  The naming rule that ties a flag's name to its macro: upper case, \<^verbatim>\<open>-\<close> written
  \<^verbatim>\<open>_\<close>, after the prefix \<^verbatim>\<open>WLR_HAS_\<close>.
\<close>

definition macro_char :: "char \<Rightarrow> char" where
  "macro_char c =
     (let k = (of_char c :: nat)
      in if c = CHR ''-'' then CHR ''_''
         else if 97 \<le> k \<and> k \<le> 122 then char_of (k - 32)
         else c)"

definition macro_name :: "string \<Rightarrow> string" where
  "macro_name flag = ''WLR_HAS_'' @ map macro_char flag"

text \<open>A flag is one bit: its macro's replacement list is the literal \<open>0\<close> or \<open>1\<close>.\<close>

definition is_flag_bit :: "replacement \<Rightarrow> bool" where
  "is_flag_bit b = (b = Some 0 \<or> b = Some 1)"

subsection \<open>Reading a flag\<close>

text \<open>
  The setting the build wrote into the header for a flag: the literal of the
  \<^verbatim>\<open>#define\<close> line of the flag's macro, read from the text of the file.
\<close>

fun define_lines :: "directive list \<Rightarrow> macro_env" where
  "define_lines [] = []"
| "define_lines (Define n b # ds) = (n, b) # define_lines ds"
| "define_lines (d # ds) = define_lines ds"

definition setting_in :: "directive list \<Rightarrow> CapabilityFlag \<Rightarrow> bool" where
  "setting_in file f =
     (case map_of (define_lines file) (macro_of f) of
        Some (Some v) \<Rightarrow> v \<noteq> 0
      | _ \<Rightarrow> False)"

definition header_setting :: "CapabilityFlag \<Rightarrow> bool" where
  "header_setting f = setting_in config_h f"

text \<open>
  What program text guarded by \<^verbatim>\<open>#if WLR_HAS_...\<close> sees: the group is compiled when
  the controlling expression has a value other than \<open>0\<close>.
\<close>

definition compiled_in :: "macro_env \<Rightarrow> CapabilityFlag \<Rightarrow> bool" where
  "compiled_in env f =
     (case if_value env (macro_of f) of Inl e \<Rightarrow> False | Inr v \<Rightarrow> v \<noteq> 0)"

text \<open>
  Modelled from the spec: the capability registry and its query
  \<^verbatim>\<open>isSupported(flag) -> bool\<close> (section 4.1) are not in the source, which has no
  function at all. By section 9 the registry is one immutable descriptor made from the
  preprocessor flags, so the query is modelled over the macros \<open>env\<close> that the
  translation unit sees: its answer is what a use of the flag's macro gives there. By
  section 4.1 the query is pure: the state \<open>s\<close> of the running process (of any type)
  goes in and comes back as it was.
\<close>

definition isSupported_in :: "macro_env \<Rightarrow> CapabilityFlag \<Rightarrow> 's \<Rightarrow> bool \<times> 's" where
  "isSupported_in env f s = (compiled_in env f, s)"

text \<open>
  Modelled from the spec: the query of the registry of this build, whose macros are those
  of the header of the repository.
\<close>

definition isSupported :: "CapabilityFlag \<Rightarrow> 's \<Rightarrow> bool \<times> 's" where
  "isSupported f s = isSupported_in wlr_config f s"

text \<open>
  Modelled from the spec: the build step that writes the manifest is not in the source.
  Section 8 speaks of the compile-time configuration under test, one bit for each flag.
  The header for a configuration \<open>cfg\<close> has the shape of the header of the repository,
  with the literal \<open>cfg f\<close> on the line of the flag \<open>f\<close>; the header of the repository
  is the one for the configuration in which every flag is \<open>1\<close>.
\<close>

definition define_all :: "macro_env \<Rightarrow> directive list" where
  "define_all ds = map (\<lambda>(n, b). Define n b) ds"

definition flag_settings :: "(CapabilityFlag \<Rightarrow> int) \<Rightarrow> macro_env" where
  "flag_settings cfg = map (\<lambda>f. (macro_of f, Some (cfg f))) all_flags"

definition header_for :: "(CapabilityFlag \<Rightarrow> int) \<Rightarrow> directive list" where
  "header_for cfg =
     Ifndef ''WLR_CONFIG_H''
       # define_all ((''WLR_CONFIG_H'', None) # flag_settings cfg) @ [Endif]"

text \<open>The header included \<open>k\<close> times in a row, as several headers of one
  translation unit may each include it.\<close>

fun include_times :: "nat \<Rightarrow> directive list \<Rightarrow> macro_env \<Rightarrow> cpp_error + macro_env" where
  "include_times 0 file env = Inr env"
| "include_times (Suc k) file env =
     (case include_file file env of
        Inl e \<Rightarrow> Inl e
      | Inr env' \<Rightarrow> include_times k file env')"

text \<open>The flags this build compiles in, in the order of the enumeration.\<close>

definition compiled_flags :: "CapabilityFlag list" where
  "compiled_flags = filter (compiled_in wlr_config) all_flags"

subsection \<open>The gate on the constructors\<close>

datatype error = ConfigurationError

text \<open>
  Modelled from the spec: the constructors \<^verbatim>\<open>create(variant)\<close> of Backend, Renderer
  and Allocator are not in the source. Sections 4.1 and 6 give the one step modelled
  here: before a variant is instantiated its flag is queried, and the constructor fails
  with \<^verbatim>\<open>ConfigurationError\<close> when the flag is false. What a constructor does once the
  check has passed is not modelled.
\<close>

definition capability_check :: "CapabilityFlag \<Rightarrow> 's \<Rightarrow> (error + unit) \<times> 's" where
  "capability_check f s =
     (case isSupported f s of
        (True, s') \<Rightarrow> (Inr (), s')
      | (False, s') \<Rightarrow> (Inl ConfigurationError, s'))"

subsection \<open>Renderer selection\<close>

datatype RendererVariant = GLES2 | Vulkan

text \<open>
  Modelled from the spec: the routine that selects a renderer is not in the source; only
  the two flags it consults are. Section 4.4 gives the policy: Vulkan is preferred when it
  is compiled in and the target device reports the required feature set, GLES2 is the
  fallback, and with neither the selection fails with \<^verbatim>\<open>ConfigurationError\<close>. By
  section 8 a compiled-in GLES2 is always usable. The compiled-in flags are passed as a
  collection \<open>compiled\<close> in whatever order its owner keeps it; the candidates are tried in
  the fixed order of preference.
\<close>

fun renderer_usable :: "CapabilityFlag list \<Rightarrow> bool \<Rightarrow> RendererVariant \<Rightarrow> bool" where
  "renderer_usable compiled device_reports_vulkan Vulkan =
     (VulkanRenderer \<in> set compiled \<and> device_reports_vulkan)"
| "renderer_usable compiled device_reports_vulkan GLES2 =
     (Gles2Renderer \<in> set compiled)"

definition renderer_preference :: "RendererVariant list" where
  "renderer_preference = [Vulkan, GLES2]"

definition select_renderer :: "CapabilityFlag list \<Rightarrow> bool \<Rightarrow> error + RendererVariant" where
  "select_renderer compiled device_reports_vulkan =
     (case find (renderer_usable compiled device_reports_vulkan) renderer_preference of
        None \<Rightarrow> Inl ConfigurationError
      | Some r \<Rightarrow> Inr r)"

section \<open>Facts about the header\<close>

lemma include_config_h:
  "include_file config_h [] = Inr
    [(''WLR_CONFIG_H'', None),
     (''WLR_HAS_DRM_BACKEND'', Some 1),
     (''WLR_HAS_LIBINPUT_BACKEND'', Some 1),
     (''WLR_HAS_X11_BACKEND'', Some 1),
     (''WLR_HAS_GLES2_RENDERER'', Some 1),
     (''WLR_HAS_VULKAN_RENDERER'', Some 1),
     (''WLR_HAS_GBM_ALLOCATOR'', Some 1),
     (''WLR_HAS_UDMABUF_ALLOCATOR'', Some 1),
     (''WLR_HAS_XWAYLAND'', Some 1),
     (''WLR_HAS_SESSION'', Some 1),
     (''WLR_HAS_COLOR_MANAGEMENT'', Some 1)]"
  by (simp add: include_file_def config_h_def)

lemma wlr_config_eq:
  "wlr_config =
    [(''WLR_CONFIG_H'', None),
     (''WLR_HAS_DRM_BACKEND'', Some 1),
     (''WLR_HAS_LIBINPUT_BACKEND'', Some 1),
     (''WLR_HAS_X11_BACKEND'', Some 1),
     (''WLR_HAS_GLES2_RENDERER'', Some 1),
     (''WLR_HAS_VULKAN_RENDERER'', Some 1),
     (''WLR_HAS_GBM_ALLOCATOR'', Some 1),
     (''WLR_HAS_UDMABUF_ALLOCATOR'', Some 1),
     (''WLR_HAS_XWAYLAND'', Some 1),
     (''WLR_HAS_SESSION'', Some 1),
     (''WLR_HAS_COLOR_MANAGEMENT'', Some 1)]"
  by (simp add: wlr_config_def include_config_h)

lemma include_config_h_ok: "include_file config_h [] = Inr wlr_config"
  by (simp add: wlr_config_def include_config_h)

lemma capability_macros_wlr_config:
  "capability_macros wlr_config =
    [(''WLR_HAS_DRM_BACKEND'', Some 1),
     (''WLR_HAS_LIBINPUT_BACKEND'', Some 1),
     (''WLR_HAS_X11_BACKEND'', Some 1),
     (''WLR_HAS_GLES2_RENDERER'', Some 1),
     (''WLR_HAS_VULKAN_RENDERER'', Some 1),
     (''WLR_HAS_GBM_ALLOCATOR'', Some 1),
     (''WLR_HAS_UDMABUF_ALLOCATOR'', Some 1),
     (''WLR_HAS_XWAYLAND'', Some 1),
     (''WLR_HAS_SESSION'', Some 1),
     (''WLR_HAS_COLOR_MANAGEMENT'', Some 1)]"
  by (simp add: wlr_config_eq capability_macros_def is_capability_macro_def)

lemma other_macros_wlr_config:
  "filter (\<lambda>n. \<not> is_capability_macro n) (map fst wlr_config) = [''WLR_CONFIG_H'']"
  by (simp add: wlr_config_eq is_capability_macro_def)

lemma all_flags_complete: "set all_flags = UNIV"
proof -
  have "f \<in> set all_flags" for f
    by (cases f) (simp_all add: all_flags_def)
  then show ?thesis by auto
qed

lemma macro_of_all_flags:
  "map macro_of all_flags =
    [''WLR_HAS_DRM_BACKEND'', ''WLR_HAS_LIBINPUT_BACKEND'', ''WLR_HAS_X11_BACKEND'',
     ''WLR_HAS_GLES2_RENDERER'', ''WLR_HAS_VULKAN_RENDERER'', ''WLR_HAS_GBM_ALLOCATOR'',
     ''WLR_HAS_UDMABUF_ALLOCATOR'', ''WLR_HAS_XWAYLAND'', ''WLR_HAS_SESSION'',
     ''WLR_HAS_COLOR_MANAGEMENT'']"
  by (simp add: all_flags_def)

lemma macro_of_distinct: "distinct (map macro_of all_flags)"
  by (simp add: macro_of_all_flags)

lemma macro_of_naming: "macro_of f = macro_name (flag_name f)"
  by (cases f) (simp_all add: macro_name_def macro_char_def char_of_def bit_Suc_0_iff)

lemma header_setting_true: "header_setting f"
  by (cases f) (simp_all add: header_setting_def setting_in_def config_h_def)

lemma compiled_in_wlr_config: "compiled_in wlr_config f"
  by (cases f) (simp_all add: compiled_in_def if_value_def wlr_config_eq)

lemma reinclude_config_h: "include_file config_h wlr_config = Inr wlr_config"
  by (simp add: wlr_config_eq include_file_def config_h_def)

lemma include_times_after_first: "include_times k config_h wlr_config = Inr wlr_config"
  by (induction k) (simp_all add: reinclude_config_h)

lemma include_times_config_h: "include_times (Suc k) config_h [] = Inr wlr_config"
  by (simp add: include_config_h_ok include_times_after_first)

lemma compiled_flags_all: "compiled_flags = all_flags"
  by (simp add: compiled_flags_def compiled_in_wlr_config)

subsection \<open>Headers of the manifest's shape\<close>

lemma cpp_append:
  "cpp (xs @ ys) st = (case cpp xs st of Inl e \<Rightarrow> Inl e | Inr st' \<Rightarrow> cpp ys st')"
  by (induction xs arbitrary: st) (auto split: sum.splits)

lemma map_of_redefine_at:
  "map_of (redefine n b env) k =
     (if k = n then (case map_of env n of None \<Rightarrow> None | Some c \<Rightarrow> Some b)
      else map_of env k)"
  by (induction env) (auto simp: redefine_def)

lemma map_of_redefine:
  "map_of env n = Some c \<Longrightarrow> map_of (redefine n b env) = (map_of env)(n \<mapsto> b)"
  by (rule ext) (simp add: map_of_redefine_at)

text \<open>A \<^verbatim>\<open>#define\<close> that is read always succeeds and binds its name.\<close>

lemma define_step:
  assumes "skipping st = 0"
  shows "\<exists>st'. cpp_directive (Define n b) st = Inr st' \<and> skipping st' = 0
            \<and> open_groups st' = open_groups st
            \<and> map_of (macros st') = (map_of (macros st))(n \<mapsto> b)"
proof (cases "map_of (macros st) n")
  case None
  then have "map_of (macros st @ [(n, b)]) = (map_of (macros st))(n \<mapsto> b)"
    by (auto simp: fun_eq_iff map_add_def split: option.splits)
  with None assms show ?thesis by simp
next
  case (Some c)
  from map_of_redefine [OF Some] Some assms show ?thesis by simp
qed

text \<open>A run of \<^verbatim>\<open>#define\<close> lines: the last line of a name is the one that counts.\<close>

lemma define_all_run:
  "skipping st = 0 \<Longrightarrow>
     \<exists>st'. cpp (define_all ds) st = Inr st' \<and> skipping st' = 0
       \<and> open_groups st' = open_groups st
       \<and> map_of (macros st') = map_of (macros st) ++ map_of (rev ds)"
proof (induction ds arbitrary: st)
  case Nil
  then show ?case by (simp add: define_all_def)
next
  case (Cons p ds)
  obtain n b where p: "p = (n, b)" by (cases p)
  from define_step [OF Cons.prems, of n b] obtain st1 where
    1: "cpp_directive (Define n b) st = Inr st1" and s1: "skipping st1 = 0"
    and g1: "open_groups st1 = open_groups st"
    and m1: "map_of (macros st1) = (map_of (macros st))(n \<mapsto> b)"
    by blast
  from Cons.IH [OF s1] obtain st' where
    2: "cpp (define_all ds) st1 = Inr st'" and s2: "skipping st' = 0"
    and g2: "open_groups st' = open_groups st1"
    and m2: "map_of (macros st') = map_of (macros st1) ++ map_of (rev ds)"
    by blast
  have run: "cpp (define_all (p # ds)) st = Inr st'"
    using 1 2 p by (simp add: define_all_def)
  have "map_of (macros st') = map_of (macros st) ++ map_of (rev (p # ds))"
    using m1 m2 p by (auto simp: fun_eq_iff map_add_def split: option.splits)
  with run s2 g1 g2 show ?case by auto
qed

lemma config_h_header_for: "config_h = header_for (\<lambda>f. 1)"
  by (simp add: config_h_def header_for_def define_all_def flag_settings_def all_flags_def)

text \<open>
  Wherever the header for a configuration is really read (its guard is not yet defined),
  reading it succeeds, and afterwards every capability macro has the literal of the
  configuration, whatever was defined before.
\<close>

lemma include_header_for:
  assumes g: "map_of env ''WLR_CONFIG_H'' = None"
  shows "\<exists>env'. include_file (header_for cfg) env = Inr env'
           \<and> map_of env' (macro_of f) = Some (Some (cfg f))"
proof -
  let ?st1 = "\<lparr>macros = env, skipping = 0, open_groups = 1\<rparr>"
  let ?ds = "(''WLR_CONFIG_H'', None) # flag_settings cfg"
  have "skipping ?st1 = 0" by simp
  from define_all_run [OF this, of ?ds] obtain st2 where
    run: "cpp (define_all ?ds) ?st1 = Inr st2" and s2: "skipping st2 = 0"
    and g2: "open_groups st2 = 1"
    and m2: "map_of (macros st2) = map_of env ++ map_of (rev ?ds)"
    by auto
  have "cpp (header_for cfg) \<lparr>macros = env, skipping = 0, open_groups = 0\<rparr>
      = cpp (define_all ?ds @ [Endif]) ?st1"
    using g by (simp add: header_for_def)
  also have "\<dots> = Inr (st2\<lparr>open_groups := 0\<rparr>)"
    using run s2 g2 by (simp add: cpp_append)
  finally have inc: "include_file (header_for cfg) env = Inr (macros st2)"
    using s2 by (simp add: include_file_def)
  have "map_of (rev ?ds) (macro_of f) = Some (Some (cfg f))"
    by (cases f) (simp_all add: flag_settings_def all_flags_def)
  with m2 have "map_of (macros st2) (macro_of f) = Some (Some (cfg f))"
    by (simp add: map_add_def)
  with inc show ?thesis by blast
qed

lemma setting_in_header_for: "setting_in (header_for cfg) f = (cfg f \<noteq> 0)"
  by (cases f)
    (simp_all add: setting_in_def header_for_def define_all_def flag_settings_def all_flags_def)

lemma compiled_in_header_for:
  assumes "map_of env ''WLR_CONFIG_H'' = None"
  shows "\<exists>env'. include_file (header_for cfg) env = Inr env'
           \<and> compiled_in env' f = (cfg f \<noteq> 0)"
proof -
  from include_header_for [OF assms, of cfg f] obtain env' where
    inc: "include_file (header_for cfg) env = Inr env'"
    and val: "map_of env' (macro_of f) = Some (Some (cfg f))"
    by (elim exE conjE)
  from val have "compiled_in env' f = (cfg f \<noteq> 0)"
    by (simp add: compiled_in_def if_value_def)
  with inc show ?thesis
    by (intro exI [of _ env'] conjI)
qed

subsection \<open>Renderer selection\<close>

lemma select_renderer_cases:
  "select_renderer c d =
     (if VulkanRenderer \<in> set c \<and> d then Inr Vulkan
      else if Gles2Renderer \<in> set c then Inr GLES2
      else Inl ConfigurationError)"
  by (simp add: select_renderer_def renderer_preference_def)

section \<open>The claims\<close>

text \<open>
  C1. The capability surface is exactly the ten flags drm-backend, libinput-backend,
  x11-backend, gles2-renderer, vulkan-renderer, gbm-allocator, udmabuf-allocator,
  xwayland, session and color-management, one to one with the macros the manifest
  defines, and there is no further flag. Reading the header succeeds; the
  \<^verbatim>\<open>WLR_HAS_*\<close> macros it defines are, in file order, the macros of the ten flags of
  the enumeration; these ten macro names are pairwise distinct and the enumeration has no
  eleventh flag; each macro's name is its flag's name under the naming rule; each macro
  is a single bit; and the only other macro of the header is its include guard.
\<close>

theorem capability_surface_exact:
  "include_file config_h [] = Inr wlr_config
   \<and> map fst (capability_macros wlr_config) = map macro_of all_flags
   \<and> distinct (map macro_of all_flags)
   \<and> set all_flags = UNIV
   \<and> length all_flags = 10
   \<and> map flag_name all_flags =
        [''drm-backend'', ''libinput-backend'', ''x11-backend'', ''gles2-renderer'',
         ''vulkan-renderer'', ''gbm-allocator'', ''udmabuf-allocator'', ''xwayland'',
         ''session'', ''color-management'']
   \<and> macro_of f = macro_name (flag_name f)
   \<and> list_all is_flag_bit (map snd (capability_macros wlr_config))
   \<and> filter (\<lambda>n. \<not> is_capability_macro n) (map fst wlr_config) = [''WLR_CONFIG_H'']"
proof -
  have names: "map fst (capability_macros wlr_config) = map macro_of all_flags"
    by (simp add: capability_macros_wlr_config macro_of_all_flags)
  have bits: "list_all is_flag_bit (map snd (capability_macros wlr_config))"
    by (simp add: capability_macros_wlr_config is_flag_bit_def)
  have spec_names: "map flag_name all_flags =
        [''drm-backend'', ''libinput-backend'', ''x11-backend'', ''gles2-renderer'',
         ''vulkan-renderer'', ''gbm-allocator'', ''udmabuf-allocator'', ''xwayland'',
         ''session'', ''color-management'']"
    by (simp add: all_flags_def)
  have len: "length all_flags = 10"
    by (simp add: all_flags_def)
  from include_config_h_ok names macro_of_distinct all_flags_complete len spec_names
    macro_of_naming bits other_macros_wlr_config
  show ?thesis by blast
qed

text \<open>
  C2. For every capability flag, \<^verbatim>\<open>isSupported\<close> is pure: a call leaves the state of
  the process as it was, any two calls with the same flag, made in any two states of the
  process, return the same boolean, and that boolean is the compile-time configuration.
  For the header of the repository: the answer is the setting written in the header, and
  after any number of inclusions the macros are those of the first one. For every
  configuration under test: wherever its header is read with the guard not yet defined,
  whatever macros the translation unit defined before (also other values for the flags'
  own macros), reading succeeds and the query over the resulting macros answers, in every
  state of the process, the bit of the configuration, which is the setting written in
  that header. The header of the repository is the header of the configuration with
  every flag \<open>1\<close>, and the registry of this build is the query over its macros.
\<close>

theorem isSupported_pure_constant:
  "snd (isSupported f s) = s
   \<and> fst (isSupported f s) = fst (isSupported f s')
   \<and> fst (isSupported f s) = header_setting f
   \<and> include_times (Suc k) config_h [] = Inr wlr_config
   \<and> config_h = header_for (\<lambda>f. 1)
   \<and> isSupported f s = isSupported_in wlr_config f s
   \<and> (map_of env ''WLR_CONFIG_H'' = None \<longrightarrow>
        (\<exists>env'. include_file (header_for cfg) env = Inr env'
           \<and> isSupported_in env' f s = (cfg f \<noteq> 0, s)
           \<and> isSupported_in env' f s' = (cfg f \<noteq> 0, s')
           \<and> setting_in (header_for cfg) f = (cfg f \<noteq> 0)))"
proof -
  have "snd (isSupported f s) = s"
    by (simp add: isSupported_def isSupported_in_def)
  moreover have "fst (isSupported f s) = fst (isSupported f s')"
    by (simp add: isSupported_def isSupported_in_def)
  moreover have "fst (isSupported f s) = header_setting f"
    by (simp add: isSupported_def isSupported_in_def header_setting_true
        compiled_in_wlr_config)
  moreover note include_times_config_h [of k]
  moreover note config_h_header_for
  moreover have "isSupported f s = isSupported_in wlr_config f s"
    by (simp add: isSupported_def)
  moreover have "map_of env ''WLR_CONFIG_H'' = None \<longrightarrow>
        (\<exists>env'. include_file (header_for cfg) env = Inr env'
           \<and> isSupported_in env' f s = (cfg f \<noteq> 0, s)
           \<and> isSupported_in env' f s' = (cfg f \<noteq> 0, s')
           \<and> setting_in (header_for cfg) f = (cfg f \<noteq> 0))"
  proof
    assume g: "map_of env ''WLR_CONFIG_H'' = None"
    from compiled_in_header_for [OF g, of cfg f] obtain env' where
      inc: "include_file (header_for cfg) env = Inr env'"
      and val: "compiled_in env' f = (cfg f \<noteq> 0)"
      by (elim exE conjE)
    from val have q: "isSupported_in env' f s = (cfg f \<noteq> 0, s)"
      and q': "isSupported_in env' f s' = (cfg f \<noteq> 0, s')"
      by (simp_all add: isSupported_in_def)
    from inc q q' setting_in_header_for [of cfg f]
    show "\<exists>env'. include_file (header_for cfg) env = Inr env'
           \<and> isSupported_in env' f s = (cfg f \<noteq> 0, s)
           \<and> isSupported_in env' f s' = (cfg f \<noteq> 0, s')
           \<and> setting_in (header_for cfg) f = (cfg f \<noteq> 0)"
      by (intro exI [of _ env'] conjI)
  qed
  ultimately show ?thesis by (intro conjI)
qed

text \<open>
  A configuration under test without the X11 backend, its header read after the
  translation unit has defined \<^verbatim>\<open>WLR_HAS_X11_BACKEND\<close> as \<open>1\<close>: the header's line
  wins and the query answers false.
\<close>

theorem isSupported_pure_constant_witness:
  "map_of [(''WLR_HAS_X11_BACKEND'', Some (1::int))] ''WLR_CONFIG_H'' = None
   \<and> (\<exists>env'. include_file (header_for (\<lambda>f. if f = X11Backend then 0 else 1))
                 [(''WLR_HAS_X11_BACKEND'', Some 1)] = Inr env'
          \<and> isSupported_in env' X11Backend () = (False, ())
          \<and> setting_in (header_for (\<lambda>f. if f = X11Backend then 0 else 1)) X11Backend
              = False)"
proof -
  let ?cfg = "\<lambda>f. if f = X11Backend then 0 else (1::int)"
  let ?env = "[(''WLR_HAS_X11_BACKEND'', Some (1::int))]"
  have g: "map_of ?env ''WLR_CONFIG_H'' = None"
    by simp
  from isSupported_pure_constant
    [where f = X11Backend and s = "()" and s' = "()" and k = 0 and env = ?env
       and cfg = ?cfg]
  have "map_of ?env ''WLR_CONFIG_H'' = None \<longrightarrow>
        (\<exists>env'. include_file (header_for ?cfg) ?env = Inr env'
           \<and> isSupported_in env' X11Backend () = (?cfg X11Backend \<noteq> 0, ())
           \<and> isSupported_in env' X11Backend () = (?cfg X11Backend \<noteq> 0, ())
           \<and> setting_in (header_for ?cfg) X11Backend = (?cfg X11Backend \<noteq> 0))"
    by (elim conjE)
  from this g
  have "\<exists>env'. include_file (header_for ?cfg) ?env = Inr env'
           \<and> isSupported_in env' X11Backend () = (?cfg X11Backend \<noteq> 0, ())
           \<and> isSupported_in env' X11Backend () = (?cfg X11Backend \<noteq> 0, ())
           \<and> setting_in (header_for ?cfg) X11Backend = (?cfg X11Backend \<noteq> 0)"
    by (rule mp)
  then obtain env' where inc: "include_file (header_for ?cfg) ?env = Inr env'"
    and raw: "isSupported_in env' X11Backend () = (?cfg X11Backend \<noteq> 0, ())"
    and rawset: "setting_in (header_for ?cfg) X11Backend = (?cfg X11Backend \<noteq> 0)"
    by (elim exE conjE)
  from raw have x11: "isSupported_in env' X11Backend () = (False, ())"
    by simp
  from rawset have set: "setting_in (header_for ?cfg) X11Backend = False"
    by simp
  from inc x11 set
  have "\<exists>env'. include_file (header_for ?cfg) ?env = Inr env'
          \<and> isSupported_in env' X11Backend () = (False, ())
          \<and> setting_in (header_for ?cfg) X11Backend = False"
    by (intro exI [of _ env'] conjI)
  with g show ?thesis by (intro conjI)
qed

text \<open>
  C3. In the configuration of this repository every one of the ten capability macros is
  defined to \<open>1\<close>, so \<^verbatim>\<open>isSupported\<close> answers true for every flag, and the check
  of a flag that precedes every \<^verbatim>\<open>create(variant)\<close> never fails with
  \<^verbatim>\<open>ConfigurationError\<close>.
\<close>

theorem all_capabilities_enabled:
  "map snd (capability_macros wlr_config) = replicate 10 (Some 1)
   \<and> map fst (capability_macros wlr_config) = map macro_of all_flags
   \<and> fst (isSupported f s)
   \<and> capability_check f s = (Inr (), s)"
  by (simp add: capability_macros_wlr_config macro_of_all_flags isSupported_def
      isSupported_in_def capability_check_def compiled_in_wlr_config numeral_eq_Suc)

text \<open>
  C4. Renderer selection is a function of the compiled-in flags and of what the device
  reports: Vulkan when vulkan-renderer is compiled in and the device reports the required
  feature set; otherwise GLES2 when gles2-renderer is compiled in; otherwise the selection
  fails with \<^verbatim>\<open>ConfigurationError\<close>. The result depends only on which flags the
  collection holds, not on their order or repetition. With the flags of this build the
  selection never fails.
\<close>

theorem select_renderer_policy:
  "select_renderer c d =
     (if VulkanRenderer \<in> set c \<and> d then Inr Vulkan
      else if Gles2Renderer \<in> set c then Inr GLES2
      else Inl ConfigurationError)
   \<and> (set c = set c' \<longrightarrow> select_renderer c d = select_renderer c' d)
   \<and> select_renderer compiled_flags d = Inr (if d then Vulkan else GLES2)"
proof -
  have "set c = set c' \<longrightarrow> select_renderer c d = select_renderer c' d"
    by (simp add: select_renderer_cases)
  moreover have "select_renderer compiled_flags d = Inr (if d then Vulkan else GLES2)"
    by (simp add: select_renderer_cases compiled_flags_all all_flags_def)
  ultimately show ?thesis
    using select_renderer_cases [of c d] by blast
qed

text \<open>
  Two collections with the same flags in different orders, one with a repetition, select
  the same renderer.
\<close>

theorem select_renderer_policy_witness:
  "set [Gles2Renderer, VulkanRenderer] = set [VulkanRenderer, Gles2Renderer, VulkanRenderer]
   \<and> select_renderer [Gles2Renderer, VulkanRenderer] True
       = select_renderer [VulkanRenderer, Gles2Renderer, VulkanRenderer] True
   \<and> select_renderer [Gles2Renderer, VulkanRenderer] True = Inr Vulkan
   \<and> select_renderer [Gles2Renderer, VulkanRenderer] False = Inr GLES2
   \<and> select_renderer [VulkanRenderer] False = Inl ConfigurationError"
proof -
  have same: "set [Gles2Renderer, VulkanRenderer]
      = set [VulkanRenderer, Gles2Renderer, VulkanRenderer]"
    by auto
  from select_renderer_policy
    [of "[Gles2Renderer, VulkanRenderer]" True "[VulkanRenderer, Gles2Renderer, VulkanRenderer]"]
    same
  have "select_renderer [Gles2Renderer, VulkanRenderer] True
       = select_renderer [VulkanRenderer, Gles2Renderer, VulkanRenderer] True"
    by blast
  moreover have "select_renderer [Gles2Renderer, VulkanRenderer] True = Inr Vulkan"
    using select_renderer_policy [of "[Gles2Renderer, VulkanRenderer]" True] by simp
  moreover have "select_renderer [Gles2Renderer, VulkanRenderer] False = Inr GLES2"
    using select_renderer_policy [of "[Gles2Renderer, VulkanRenderer]" False] by simp
  moreover have "select_renderer [VulkanRenderer] False = Inl ConfigurationError"
    using select_renderer_policy [of "[VulkanRenderer]" False] by simp
  ultimately show ?thesis using same by blast
qed

end
